theory Spec2Isabelle
  imports Main
begin

section \<open>gcore\_point: coredump breakpoints for gdb\<close>

text \<open>
  A shallow embedding of \<^verbatim>\<open>gcore_point.py\<close>. The script runs inside gdb and talks to
  it through the \<^verbatim>\<open>gdb\<close> Python module; the debugger is the state that every
  function of the model takes and returns. A Python call that may raise returns
  \<open>(exn + 'a) \<times> gdb\<close>: the exception or the value, and the debugger as the call left it
  (what a call did before it raised stays done).
\<close>

subsection \<open>Exceptions\<close>

datatype exn =
    GdbError string
  | gdb_error string
  | NameError string
  | TypeError string
  | IndexError string
  | KeyboardInterrupt

text \<open>The classes an exception is an instance of, most specific first.\<close>

fun mro :: "exn \<Rightarrow> string list" where
  "mro (GdbError m) = [''GdbError'', ''Exception'', ''BaseException'']"
| "mro (gdb_error m) = [''error'', ''RuntimeError'', ''Exception'', ''BaseException'']"
| "mro (NameError m) = [''NameError'', ''Exception'', ''BaseException'']"
| "mro (TypeError m) = [''TypeError'', ''Exception'', ''BaseException'']"
| "mro (IndexError m) = [''IndexError'', ''LookupError'', ''Exception'', ''BaseException'']"
| "mro KeyboardInterrupt = [''KeyboardInterrupt'', ''BaseException'']"

subsection \<open>The debugger\<close>

text \<open>
  The event registries of \<^verbatim>\<open>gdb.events\<close>. The script only ever names
  \<^verbatim>\<open>gdb.events.stop\<close>; \<^verbatim>\<open>GDBEventOneShot\<close> takes any registry.
\<close>

datatype event_registry = events_stop | events_other string

text \<open>
  The attributes of a one-shot event object: \<^verbatim>\<open>_registry\<close> and \<^verbatim>\<open>_continue\<close> of
  \<^verbatim>\<open>GDBEventOneShot\<close>, \<^verbatim>\<open>_file_name\<close> of its subclass \<^verbatim>\<open>GCoreOnStop\<close>.
\<close>

record oneshot =
  registry :: event_registry
  continue :: bool
  file_name :: string

text \<open>
  A \<^verbatim>\<open>CoreDumpBP\<close>: the location spec and the hit counter belong to
  \<^verbatim>\<open>gdb.Breakpoint\<close>, \<^verbatim>\<open>_core_name\<close> to the subclass.
\<close>

record CoreDumpBP =
  spec :: string
  core_name :: "string option"
  hit_count :: int

text \<open>
  The debugger as the script sees it.
  \<^item> \<open>callbacks r\<close>: the callables connected to registry \<open>r\<close>, in connection order; a
    callable is the address of a one-shot object.
  \<^item> \<open>objs\<close>, \<open>next_obj\<close>: the store of one-shot objects and the next free address.
  \<^item> \<open>executed\<close>: every command string passed to \<^verbatim>\<open>gdb.execute\<close>, in order.
  \<^item> \<open>execute_raises\<close>: the debugger's answer to a command, given the commands executed
    before it: the exception it raises, or \<open>None\<close>.
  \<^item> \<open>printed\<close>: what \<^verbatim>\<open>print\<close> wrote.
  \<^item> \<open>reported\<close>: exceptions that escaped an event callback; gdb reports them and goes on.
  \<^item> \<open>inferior_pid\<close>: \<^verbatim>\<open>gdb.selected_inferior().pid\<close>.
  \<^item> \<open>breakpoints\<close>: the breakpoints created, in creation order.
  \<^item> \<open>requested\<close>: every spec handed to \<^verbatim>\<open>gdb.Breakpoint.__init__\<close>, accepted or not.
  \<^item> \<open>rejects\<close>: the exception \<^verbatim>\<open>gdb.Breakpoint.__init__\<close> raises for a spec, or
    \<open>None\<close>.
\<close>

record gdb =
  callbacks :: "event_registry \<Rightarrow> nat list"
  objs :: "nat \<Rightarrow> oneshot"
  next_obj :: nat
  executed :: "string list"
  execute_raises :: "string list \<Rightarrow> string \<Rightarrow> exn option"
  printed :: "string list"
  reported :: "exn list"
  inferior_pid :: int
  breakpoints :: "CoreDumpBP list"
  requested :: "string list"
  rejects :: "string \<Rightarrow> exn option"

text \<open>\<^verbatim>\<open>gdb.execute(cmd)\<close>: the command is handed to the debugger, which may raise.\<close>

definition gdb_execute :: "string \<Rightarrow> gdb \<Rightarrow> (exn + unit) \<times> gdb" where
  "gdb_execute cmd h =
     (let h1 = h\<lparr>executed := executed h @ [cmd]\<rparr> in
      case execute_raises h (executed h) cmd of
        Some x \<Rightarrow> (Inl x, h1)
      | None \<Rightarrow> (Inr (), h1))"

text \<open>
  \<^verbatim>\<open>registry.connect(cb)\<close> appends the callable; \<^verbatim>\<open>registry.disconnect(cb)\<close>
  removes it (its first occurrence) and does nothing when it is not connected.
\<close>

definition connect :: "event_registry \<Rightarrow> nat \<Rightarrow> gdb \<Rightarrow> gdb" where
  "connect r cb h = h\<lparr>callbacks := (callbacks h)(r := callbacks h r @ [cb])\<rparr>"

definition disconnect :: "event_registry \<Rightarrow> nat \<Rightarrow> gdb \<Rightarrow> gdb" where
  "disconnect r cb h = h\<lparr>callbacks := (callbacks h)(r := remove1 cb (callbacks h r))\<rparr>"

definition print :: "string \<Rightarrow> gdb \<Rightarrow> gdb" where
  "print s h = h\<lparr>printed := printed h @ [s]\<rparr>"

text \<open>Creating a Python object: a fresh address in the store.\<close>

definition new_object :: "gdb \<Rightarrow> nat \<times> gdb" where
  "new_object h = (next_obj h, h\<lparr>next_obj := Suc (next_obj h)\<rparr>)"

subsection \<open>Name lookup\<close>

text \<open>
  The names the module binds at top level: the import and the four classes; the script
  binds no other global. A name that a function reads and never assigns is looked up
  here, then among the builtins. Of the builtins the model lists exception classes
  only, the ones an \<^verbatim>\<open>except\<close> clause can match; the lookup is used for the name of
  such a clause and for nothing else. No builtin of Python is called \<^verbatim>\<open>e\<close>.
\<close>

datatype pyobj = Module string | Class string | ExcClass string

definition module_globals :: "(string \<times> pyobj) list" where
  "module_globals =
     [(''gdb'', Module ''gdb''),
      (''GDBEventOneShot'', Class ''GDBEventOneShot''),
      (''GCoreOnStop'', Class ''GCoreOnStop''),
      (''CoreDumpBP'', Class ''CoreDumpBP''),
      (''GcorePointCmd'', Class ''GcorePointCmd'')]"

definition builtin_exceptions :: "string list" where
  "builtin_exceptions =
     [''BaseException'', ''Exception'', ''KeyboardInterrupt'', ''LookupError'',
      ''IndexError'', ''NameError'', ''RuntimeError'', ''TypeError'']"

definition load_global :: "string \<Rightarrow> exn + pyobj" where
  "load_global n =
     (case map_of module_globals n of
        Some v \<Rightarrow> Inr v
      | None \<Rightarrow>
          if n \<in> set builtin_exceptions then Inr (ExcClass n)
          else Inl (NameError (''name '' @ [CHR 0x27] @ n @ [CHR 0x27] @ '' is not defined'')))"

text \<open>
  Whether an \<^verbatim>\<open>except c:\<close> clause handles the exception \<open>x\<close>; a \<open>c\<close> that is no
  exception class makes the match itself raise.
\<close>

definition except_matches :: "exn \<Rightarrow> pyobj \<Rightarrow> exn + bool" where
  "except_matches x c =
     (case c of
        ExcClass n \<Rightarrow> Inr (n \<in> set (mro x))
      | _ \<Rightarrow> Inl (TypeError
          ''catching classes that do not inherit from BaseException is not allowed''))"

fun repr :: "pyobj \<Rightarrow> string" where
  "repr (Module n) = ''<module '' @ [CHR 0x27] @ n @ [CHR 0x27] @ ''>''"
| "repr (Class n) = ''<class '' @ [CHR 0x27] @ n @ [CHR 0x27] @ ''>''"
| "repr (ExcClass n) = ''<class '' @ [CHR 0x27] @ n @ [CHR 0x27] @ ''>''"

subsection \<open>\<^verbatim>\<open>GDBEventOneShot\<close>\<close>

text \<open>
  \<^verbatim>\<open>__init__(self, registry, continue_after_run=True)\<close>: stores both attributes and
  connects the object to the registry.
\<close>

definition GDBEventOneShot_init :: "nat \<Rightarrow> event_registry \<Rightarrow> bool \<Rightarrow> gdb \<Rightarrow> gdb" where
  "GDBEventOneShot_init self reg continue_after_run h =
     (let h1 = h\<lparr>objs := (objs h)(self := (objs h self)\<lparr>registry := reg\<rparr>)\<rparr>;
          h2 = h1\<lparr>objs := (objs h1)(self := (objs h1 self)\<lparr>continue := continue_after_run\<rparr>)\<rparr>
      in connect (registry (objs h2 self)) self h2)"

text \<open>
  The \<^verbatim>\<open>try\<close> statement of \<^verbatim>\<open>__call__\<close>. The hook \<open>run_event\<close> is the method the
  subclass supplies. The result is the value of \<^verbatim>\<open>force_stop\<close> after the statement,
  or the exception that leaves it. When the hook raises, Python evaluates the expression
  of the clause \<^verbatim>\<open>except e:\<close>, the name \<^verbatim>\<open>e\<close>, and matches the exception against it;
  the handler prints \<^verbatim>\<open>e\<close> and sets \<^verbatim>\<open>force_stop\<close>.
\<close>

definition try_run_event ::
  "(nat \<Rightarrow> gdb \<Rightarrow> (exn + unit) \<times> gdb) \<Rightarrow> nat \<Rightarrow> gdb \<Rightarrow> (exn + bool) \<times> gdb" where
  "try_run_event run_event self h =
     (case run_event self h of
        (Inr u, h1) \<Rightarrow> (Inr False, h1)
      | (Inl x, h1) \<Rightarrow>
          (case load_global ''e'' of
             Inl err \<Rightarrow> (Inl err, h1)
           | Inr c \<Rightarrow>
               (case except_matches x c of
                  Inl err \<Rightarrow> (Inl err, h1)
                | Inr False \<Rightarrow> (Inl x, h1)
                | Inr True \<Rightarrow> (Inr True, print (repr c) h1))))"

text \<open>
  \<^verbatim>\<open>__call__(self, event)\<close>: the \<^verbatim>\<open>try\<close> statement, then the disconnect, then the
  \<^verbatim>\<open>continue\<close> command when nothing forced a stop and the object asks for it.
\<close>

definition call ::
  "(nat \<Rightarrow> gdb \<Rightarrow> (exn + unit) \<times> gdb) \<Rightarrow> nat \<Rightarrow> 'ev \<Rightarrow> gdb \<Rightarrow> (exn + unit) \<times> gdb" where
  "call run_event self event h =
     (case try_run_event run_event self h of
        (Inl x, h1) \<Rightarrow> (Inl x, h1)
      | (Inr force_stop, h1) \<Rightarrow>
          (let h2 = disconnect (registry (objs h1 self)) self h1 in
           if \<not> force_stop \<and> continue (objs h2 self)
           then gdb_execute ''continue'' h2
           else (Inr (), h2)))"

subsection \<open>\<^verbatim>\<open>GCoreOnStop\<close>\<close>

text \<open>
  \<^verbatim>\<open>__init__(self, file_name)\<close>: the base initialiser on \<^verbatim>\<open>gdb.events.stop\<close>, with
  \<^verbatim>\<open>continue_after_run\<close> left at its default \<^verbatim>\<open>True\<close>, then the file name.
\<close>

definition GCoreOnStop_init :: "nat \<Rightarrow> string \<Rightarrow> gdb \<Rightarrow> gdb" where
  "GCoreOnStop_init self fname h =
     (let h1 = GDBEventOneShot_init self events_stop True h
      in h1\<lparr>objs := (objs h1)(self := (objs h1 self)\<lparr>file_name := fname\<rparr>)\<rparr>)"

text \<open>The expression \<^verbatim>\<open>GCoreOnStop(file_name)\<close>: allocate, then initialise.\<close>

definition GCoreOnStop_new :: "string \<Rightarrow> gdb \<Rightarrow> nat \<times> gdb" where
  "GCoreOnStop_new fname h =
     (case new_object h of (self, h1) \<Rightarrow> (self, GCoreOnStop_init self fname h1))"

definition GCoreOnStop_run_event :: "nat \<Rightarrow> gdb \<Rightarrow> (exn + unit) \<times> gdb" where
  "GCoreOnStop_run_event self h = gdb_execute (''gcore '' @ file_name (objs h self)) h"

subsection \<open>\<^verbatim>\<open>CoreDumpBP\<close>\<close>

text \<open>Python's \<^verbatim>\<open>str\<close> of an integer, as an f-string formats it.\<close>

definition digit_char :: "nat \<Rightarrow> char" where
  "digit_char d = ''0123456789'' ! d"

fun str_nat :: "nat \<Rightarrow> string" where
  "str_nat n = (if n < 10 then [digit_char n] else str_nat (n div 10) @ [digit_char (n mod 10)])"

declare str_nat.simps [simp del]

definition str_int :: "int \<Rightarrow> string" where
  "str_int i = (if i < 0 then ''-'' @ str_nat (nat (- i)) else str_nat (nat i))"

text \<open>
  \<^verbatim>\<open>__init__(self, spec, core_name=None)\<close>: stores the name and has gdb set the
  breakpoint, which gdb may refuse.
\<close>

definition CoreDumpBP_init :: "string \<Rightarrow> string option \<Rightarrow> gdb \<Rightarrow> (exn + nat) \<times> gdb" where
  "CoreDumpBP_init sp name h =
     (let h1 = h\<lparr>requested := requested h @ [sp]\<rparr> in
      case rejects h sp of
        Some x \<Rightarrow> (Inl x, h1)
      | None \<Rightarrow>
          (Inr (length (breakpoints h1)),
           h1\<lparr>breakpoints := breakpoints h1 @
                 [\<lparr>spec = sp, core_name = name, hit_count = 0\<rparr>]\<rparr>))"

text \<open>The two f-strings of \<^verbatim>\<open>stop\<close>.\<close>

definition core_file_name :: "string option \<Rightarrow> int \<Rightarrow> int \<Rightarrow> string" where
  "core_file_name name pid hits =
     (let core_name_prefix = (case name of Some n \<Rightarrow> n @ ''.'' | None \<Rightarrow> '''')
      in ''core.'' @ core_name_prefix @ str_int pid @ ''.'' @ str_int hits)"

text \<open>\<^verbatim>\<open>stop(self)\<close>: name the core file, create the one-shot event, answer \<^verbatim>\<open>True\<close>.\<close>

definition stop :: "CoreDumpBP \<Rightarrow> gdb \<Rightarrow> bool \<times> gdb" where
  "stop self h =
     (let pid = inferior_pid h;
          name = core_file_name (core_name self) pid (hit_count self)
      in case GCoreOnStop_new name h of (ev, h1) \<Rightarrow> (True, h1))"

subsection \<open>\<^verbatim>\<open>GcorePointCmd\<close>\<close>

text \<open>\<^verbatim>\<open>str.split(sep)\<close> with a one-character separator: every occurrence splits.\<close>

fun str_split :: "char \<Rightarrow> string \<Rightarrow> string list" where
  "str_split sep [] = [[]]"
| "str_split sep (c # cs) =
     (if c = sep then [] # str_split sep cs
      else (case str_split sep cs of
              [] \<Rightarrow> [[c]]
            | t # ts \<Rightarrow> (c # t) # ts))"

text \<open>
  A call used as a statement: its value is dropped, its exception and its effect on the
  debugger stay. \<^verbatim>\<open>invoke\<close> uses \<^verbatim>\<open>CoreDumpBP(...)\<close> so and returns \<^verbatim>\<open>None\<close>.
\<close>

definition discard :: "(exn + 'a) \<times> gdb \<Rightarrow> (exn + unit) \<times> gdb" where
  "discard r = (case r of (Inl x, h1) \<Rightarrow> (Inl x, h1) | (Inr v, h1) \<Rightarrow> (Inr (), h1))"

text \<open>\<^verbatim>\<open>self._name\<close>, set once by \<^verbatim>\<open>GcorePointCmd.__init__\<close>.\<close>

definition command_name :: string where
  "command_name = ''gcore-point''"

definition invoke :: "string \<Rightarrow> bool \<Rightarrow> gdb \<Rightarrow> (exn + unit) \<times> gdb" where
  "invoke arg from_tty h =
     (if arg = '''' then
        (Inl (GdbError (''The '' @ command_name @ '' command must be called with arguments.'')), h)
      else
        (case str_split (CHR '' '') arg of
           [] \<Rightarrow> (Inl (IndexError ''list index out of range''), h)
         | sp # rest \<Rightarrow>
             (case rest of
                l # ignored \<Rightarrow> discard (CoreDumpBP_init sp (Some l) h)
              | [] \<Rightarrow> discard (CoreDumpBP_init sp None h))))"

subsection \<open>What gdb does with the script's objects\<close>

text \<open>
  A breakpoint is hit: gdb calls \<^verbatim>\<open>stop\<close> and, when the answer is to stop, counts the
  hit. The docstring of \<^verbatim>\<open>stop\<close> relies on this order: three hits give the names
  ending in 0, 1 and 2.
\<close>

definition hit :: "nat \<Rightarrow> gdb \<Rightarrow> gdb" where
  "hit b h =
     (if b < length (breakpoints h) then
        (let self = breakpoints h ! b in
         case stop self h of
           (True, h1) \<Rightarrow>
             h1\<lparr>breakpoints := (breakpoints h1)[b := self\<lparr>hit_count := hit_count self + 1\<rparr>]\<rparr>
         | (False, h1) \<Rightarrow> h1)
      else h)"

text \<open>
  An event fires on a registry: gdb calls every callable connected when the event fires,
  in order; an exception that leaves a callable is reported and the next one is called.
\<close>

fun deliver ::
  "(nat \<Rightarrow> gdb \<Rightarrow> (exn + unit) \<times> gdb) \<Rightarrow> nat list \<Rightarrow> 'ev \<Rightarrow> gdb \<Rightarrow> gdb" where
  "deliver run_event [] event h = h"
| "deliver run_event (cb # cbs) event h =
     (case call run_event cb event h of
        (Inl x, h1) \<Rightarrow> deliver run_event cbs event (h1\<lparr>reported := reported h1 @ [x]\<rparr>)
      | (Inr u, h1) \<Rightarrow> deliver run_event cbs event h1)"

definition emit ::
  "(nat \<Rightarrow> gdb \<Rightarrow> (exn + unit) \<times> gdb) \<Rightarrow> event_registry \<Rightarrow> 'ev \<Rightarrow> gdb \<Rightarrow> gdb" where
  "emit run_event r event h = deliver run_event (callbacks h r) event h"

text \<open>A run of hits, each on the breakpoint with the given index, oldest first.\<close>

definition hits :: "nat list \<Rightarrow> gdb \<Rightarrow> gdb" where
  "hits bs h = fold hit bs h"

subsection \<open>The specification's words\<close>


text \<open>
  Reading back what \<^verbatim>\<open>str\<close> and \<^verbatim>\<open>split\<close> wrote: the number a digit string
  denotes, and \<^verbatim>\<open>sep.join(tokens)\<close>.
\<close>

definition decimal_value :: "string \<Rightarrow> nat" where
  "decimal_value s = foldl (\<lambda>a c. 10 * a + (of_char c - 48)) 0 s"

fun str_join :: "char \<Rightarrow> string list \<Rightarrow> string" where
  "str_join sep [] = []"
| "str_join sep [t] = t"
| "str_join sep (t # u # ts) = t @ sep # str_join sep (u # ts)"

subsection \<open>Example sessions\<close>

text \<open>
  A debugger that has just loaded the script: nothing connected, nothing executed, no
  breakpoint; \<open>answers\<close> and \<open>refusals\<close> say how it will react.
\<close>

definition session ::
  "(string list \<Rightarrow> string \<Rightarrow> exn option) \<Rightarrow> (string \<Rightarrow> exn option) \<Rightarrow> int \<Rightarrow> gdb" where
  "session answers refusals pid =
     \<lparr>callbacks = (\<lambda>r. []),
      objs = (\<lambda>a. \<lparr>registry = events_stop, continue = False, file_name = ''''\<rparr>),
      next_obj = 0, executed = [], execute_raises = answers, printed = [], reported = [],
      inferior_pid = pid, breakpoints = [], requested = [], rejects = refusals\<rparr>"

text \<open>A debugger in which every command succeeds, and one that cannot write core files.\<close>

definition all_succeed :: "string list \<Rightarrow> string \<Rightarrow> exn option" where
  "all_succeed history cmd = None"

definition gcore_fails :: "string list \<Rightarrow> string \<Rightarrow> exn option" where
  "gcore_fails history cmd =
     (if take 6 cmd = ''gcore '' then Some (gdb_error ''Unable to create core file'') else None)"

text \<open>
  \<^verbatim>\<open>gcore-point main\<close> on an inferior with pid 4242, then the first hit of the new
  breakpoint: one event is armed, for the file \<^verbatim>\<open>core.4242.0\<close>.
\<close>

definition armed :: "(string list \<Rightarrow> string \<Rightarrow> exn option) \<Rightarrow> gdb" where
  "armed answers = hit 0 (snd (invoke ''main'' False (session answers (\<lambda>s. None) 4242)))"


section \<open>Properties\<close>

subsection \<open>The model of \<^verbatim>\<open>str\<close> and \<^verbatim>\<open>split\<close>\<close>

lemma digit_char_value: "d < 10 \<Longrightarrow> of_char (digit_char d) = (48::nat) + d"
proof -
  assume "d < 10"
  then have "d \<in> {0, 1, 2, 3, 4, 5, 6, 7, 8, 9}" by auto
  then show ?thesis by (auto simp add: digit_char_def)
qed

lemma decimal_value_snoc:
  "decimal_value (s @ [c]) = 10 * decimal_value s + (of_char c - 48)"
  by (simp add: decimal_value_def)

text \<open>The digits \<^verbatim>\<open>str\<close> writes denote the number they were written for.\<close>

lemma decimal_value_str_nat: "decimal_value (str_nat n) = n"
proof (induction n rule: str_nat.induct)
  case (1 n)
  show ?case
  proof (cases "n < 10")
    case True
    then show ?thesis
      by (simp add: str_nat.simps [of n] decimal_value_def digit_char_value)
  next
    case False
    then have "decimal_value (str_nat (n div 10)) = n div 10" by (rule "1.IH")
    with False show ?thesis
      by (simp add: str_nat.simps [of n] decimal_value_snoc digit_char_value)
  qed
qed

lemma str_int_4242: "str_int 4242 = ''4242''"
  by (simp add: str_int_def str_nat.simps digit_char_def)

lemma str_int_0: "str_int 0 = ''0''"
  by (simp add: str_int_def str_nat.simps digit_char_def)


lemma str_split_not_Nil: "str_split sep s \<noteq> []"
  by (induction s) (auto split: list.splits)

lemma str_split_no_sep: "t \<in> set (str_split sep s) \<Longrightarrow> sep \<notin> set t"
  by (induction s arbitrary: t) (auto split: if_splits list.splits)

text \<open>Joining the tokens with the separator gives the string back.\<close>

lemma str_join_split: "str_join sep (str_split sep s) = s"
proof (induction s)
  case Nil
  then show ?case by simp
next
  case (Cons c s)
  obtain t ts where ts: "str_split sep s = t # ts"
    using str_split_not_Nil [of sep s] by (cases "str_split sep s") auto
  with Cons show ?case by (cases ts) auto
qed

lemma str_split_hd: "sep \<notin> set s \<Longrightarrow> str_split sep (s @ sep # r) = s # str_split sep r"
  by (induction s) (auto split: list.splits)

lemma str_split_spaces:
  "set s \<subseteq> {sep} \<Longrightarrow> str_split sep s = replicate (Suc (length s)) []"
  by (induction s) auto

subsection \<open>\<^verbatim>\<open>__call__\<close>, by the outcome of the hook\<close>

lemma load_global_e: "load_global ''e'' = Inl (NameError ''name 'e' is not defined'')"
  by (simp add: load_global_def module_globals_def builtin_exceptions_def)

lemma try_run_event_raises:
  "run_event self h = (Inl x, h1) \<Longrightarrow>
   try_run_event run_event self h = (Inl (NameError ''name 'e' is not defined''), h1)"
  by (simp add: try_run_event_def load_global_e)

lemma try_run_event_returns:
  "run_event self h = (Inr u, h1) \<Longrightarrow> try_run_event run_event self h = (Inr False, h1)"
  by (simp add: try_run_event_def)

text \<open>
  When the hook raises, the clause \<^verbatim>\<open>except e:\<close> raises in its turn, and that
  exception leaves \<^verbatim>\<open>__call__\<close> with the debugger as the hook left it.
\<close>

lemma call_raises:
  "run_event self h = (Inl x, h1) \<Longrightarrow>
   call run_event self event h = (Inl (NameError ''name 'e' is not defined''), h1)"
  by (simp add: call_def try_run_event_raises)

lemma call_returns:
  "run_event self h = (Inr u, h1) \<Longrightarrow>
   call run_event self event h =
     (let h2 = disconnect (registry (objs h1 self)) self h1 in
      if continue (objs h2 self) then gdb_execute ''continue'' h2 else (Inr (), h2))"
  by (simp add: call_def try_run_event_returns)

lemma executed_gdb_execute: "executed (snd (gdb_execute cmd h)) = executed h @ [cmd]"
  by (simp add: gdb_execute_def Let_def split: option.splits)

lemma executed_disconnect: "executed (disconnect r cb h) = executed h"
  by (simp add: disconnect_def)

lemma objs_disconnect: "objs (disconnect r cb h) = objs h"
  by (simp add: disconnect_def)

lemma callbacks_disconnect:
  "callbacks (disconnect r cb h) r = remove1 cb (callbacks h r)"
  by (simp add: disconnect_def)

lemma run_event_returns:
  "execute_raises h (executed h) (''gcore '' @ file_name (objs h self)) = None \<Longrightarrow>
   GCoreOnStop_run_event self h =
     (Inr (), h\<lparr>executed := executed h @ [''gcore '' @ file_name (objs h self)]\<rparr>)"
  by (simp add: GCoreOnStop_run_event_def gdb_execute_def)

lemma run_event_raises:
  "execute_raises h (executed h) (''gcore '' @ file_name (objs h self)) = Some x \<Longrightarrow>
   GCoreOnStop_run_event self h =
     (Inl x, h\<lparr>executed := executed h @ [''gcore '' @ file_name (objs h self)]\<rparr>)"
  by (simp add: GCoreOnStop_run_event_def gdb_execute_def)

subsection \<open>The example sessions, evaluated\<close>

lemma session_requested: "requested (session answers refusals pid) = []"
  by (simp add: session_def)

lemma invoke_main:
  "invoke ''main'' from_tty (session answers (\<lambda>s. None) pid) =
     (Inr (), (session answers (\<lambda>s. None) pid)
        \<lparr>requested := [''main''],
         breakpoints := [\<lparr>spec = ''main'', core_name = None, hit_count = 0\<rparr>]\<rparr>)"
  by (simp add: invoke_def discard_def CoreDumpBP_init_def session_def)


subsection \<open>\<^verbatim>\<open>stop\<close> and the hit counter\<close>

lemma stop_frame:
  "inferior_pid (snd (stop self h)) = inferior_pid h"
  "breakpoints (snd (stop self h)) = breakpoints h"
  "fst (stop self h) = True"
  by (simp_all add: stop_def GCoreOnStop_new_def new_object_def GCoreOnStop_init_def
      GDBEventOneShot_init_def connect_def Let_def)


lemma hit_eq:
  "b < length (breakpoints h) \<Longrightarrow>
   hit b h = (snd (stop (breakpoints h ! b) h))
     \<lparr>breakpoints := (breakpoints h)[b := (breakpoints h ! b)
        \<lparr>hit_count := hit_count (breakpoints h ! b) + 1\<rparr>]\<rparr>"
  using stop_frame(3) [of "breakpoints h ! b" h] stop_frame(2) [of "breakpoints h ! b" h]
  by (cases "stop (breakpoints h ! b) h") (simp add: hit_def Let_def)









lemma armed_eq:
  "armed a = hit 0 ((session a (\<lambda>s. None) 4242)
        \<lparr>requested := [''main''],
         breakpoints := [\<lparr>spec = ''main'', core_name = None, hit_count = 0\<rparr>]\<rparr>)"
  by (simp add: armed_def invoke_main)

lemma armed_state:
  "callbacks (armed a) events_stop = [0]"
  "registry (objs (armed a) 0) = events_stop"
  "continue (objs (armed a) 0) = True"
  "file_name (objs (armed a) 0) = ''core.4242.0''"
  "executed (armed a) = []"
  "execute_raises (armed a) = a"
  "printed (armed a) = []"
  by (simp_all add: armed_eq hit_eq stop_def GCoreOnStop_new_def new_object_def
      GCoreOnStop_init_def GDBEventOneShot_init_def connect_def core_file_name_def
      str_int_4242 str_int_0 session_def)

text \<open>In the session that cannot write core files, the armed event's hook raises.\<close>

lemma armed_run_event_raises:
  "GCoreOnStop_run_event 0 (armed gcore_fails) =
     (Inl (gdb_error ''Unable to create core file''),
      (armed gcore_fails)\<lparr>executed := [''gcore core.4242.0'']\<rparr>)"
  using run_event_raises [of "armed gcore_fails" 0 "gdb_error ''Unable to create core file''"]
  by (simp add: armed_state gcore_fails_def)

lemma armed_call_raises:
  "call GCoreOnStop_run_event 0 event (armed gcore_fails) =
     (Inl (NameError ''name 'e' is not defined''),
      (armed gcore_fails)\<lparr>executed := [''gcore core.4242.0'']\<rparr>)"
  using armed_run_event_raises by (rule call_raises)

lemma emit_armed_raises:
  "emit GCoreOnStop_run_event events_stop event (armed gcore_fails) =
     (armed gcore_fails)\<lparr>executed := [''gcore core.4242.0''],
        reported := reported (armed gcore_fails) @ [NameError ''name 'e' is not defined'']\<rparr>"
  by (simp add: emit_def armed_state armed_call_raises)

text \<open>
  \<^verbatim>\<open>stop\<close> as one step of the debugger: the next free address is taken by an object
  with all three attributes set, and that address is appended to \<^verbatim>\<open>gdb.events.stop\<close>.
\<close>

lemma oneshot_all_fields:
  "(r::oneshot)\<lparr>registry := a, continue := b, file_name := c\<rparr> =
     \<lparr>registry = a, continue = b, file_name = c\<rparr>"
  by (cases r) simp

lemma stop_eq:
  "stop self h =
     (True,
      h\<lparr>next_obj := Suc (next_obj h),
        objs := (objs h)(next_obj h :=
          \<lparr>registry = events_stop, continue = True,
           file_name = core_file_name (core_name self) (inferior_pid h) (hit_count self)\<rparr>),
        callbacks := (callbacks h)(events_stop := callbacks h events_stop @ [next_obj h])\<rparr>)"
  by (simp add: stop_def GCoreOnStop_new_def new_object_def GCoreOnStop_init_def
      GDBEventOneShot_init_def connect_def Let_def oneshot_all_fields)

lemma armed_next_obj: "next_obj (armed a) = 1"
  by (simp add: armed_eq hit_eq stop_eq session_def)

section \<open>The claims\<close>

text \<open>
  C1. If the hook \<^verbatim>\<open>run_event\<close> raises, the binding is still disconnected from its
  registry before \<^verbatim>\<open>__call__\<close> ends. The script does not do this. Evaluated on the
  event armed in the session that cannot write core files: the hook raises
  \<^verbatim>\<open>gdb.error\<close>, the clause \<^verbatim>\<open>except e:\<close> raises \<^verbatim>\<open>NameError\<close>, which leaves
  \<^verbatim>\<open>__call__\<close> before the disconnect, and the event is still connected to
  \<^verbatim>\<open>gdb.events.stop\<close>.
\<close>

theorem failed_dump_stays_connected:
  "fst (call GCoreOnStop_run_event 0 () (armed gcore_fails)) =
     Inl (NameError ''name 'e' is not defined'') \<and>
   callbacks (snd (call GCoreOnStop_run_event 0 () (armed gcore_fails))) events_stop = [0]"
  by (simp add: armed_call_raises armed_state)

text \<open>
  C2. An exception of \<^verbatim>\<open>run_event\<close> is caught in \<^verbatim>\<open>__call__\<close>, printed, and does not
  reach gdb. The script does not do this. On the same input an exception leaves
  \<^verbatim>\<open>__call__\<close> (the \<^verbatim>\<open>NameError\<close> of the \<^verbatim>\<open>except\<close> clause) and nothing has been
  printed.
\<close>

theorem failed_dump_propagates:
  "fst (call GCoreOnStop_run_event 0 () (armed gcore_fails)) =
     Inl (NameError ''name 'e' is not defined'') \<and>
   printed (snd (call GCoreOnStop_run_event 0 () (armed gcore_fails))) = []"
  by (simp add: armed_call_raises armed_state)



text \<open>
  C4. The hook of a binding runs at most once, however many events its registry
  delivers. The script does not ensure this. In the session that cannot write core
  files the event stays connected after the first stop event, and the second
  stop event runs its hook again: the dump command is issued twice.
\<close>

theorem failed_dump_runs_again:
  "executed (emit GCoreOnStop_run_event events_stop ()
      (emit GCoreOnStop_run_event events_stop () (armed gcore_fails))) =
     [''gcore core.4242.0'', ''gcore core.4242.0'']"
proof -
  let ?h = "emit GCoreOnStop_run_event events_stop () (armed gcore_fails)"
  have cb: "callbacks ?h events_stop = [0]"
    by (simp add: emit_armed_raises armed_state)
  have "GCoreOnStop_run_event 0 ?h =
      (Inl (gdb_error ''Unable to create core file''),
       ?h\<lparr>executed := [''gcore core.4242.0'', ''gcore core.4242.0'']\<rparr>)"
    using run_event_raises [of ?h 0 "gdb_error ''Unable to create core file''"]
    by (simp add: emit_armed_raises armed_state gcore_fails_def)
  then have "call GCoreOnStop_run_event 0 () ?h =
      (Inl (NameError ''name 'e' is not defined''),
       ?h\<lparr>executed := [''gcore core.4242.0'', ''gcore core.4242.0'']\<rparr>)"
    by (rule call_raises)
  then show ?thesis
    using cb by (simp add: emit_def [of _ _ _ ?h])
qed

lemma callbacks_gdb_execute: "callbacks (snd (gdb_execute cmd h)) = callbacks h"
  by (simp add: gdb_execute_def Let_def split: option.splits)

text \<open>
  X1. When the hook returns, \<^verbatim>\<open>__call__\<close> removes the binding from the registry it is
  bound to, whether or not it then resumes and whether or not the resume command
  succeeds.
\<close>

theorem returned_hook_disconnects:
  "run_event self h = (Inr u, h1) \<Longrightarrow>
   callbacks (snd (call run_event self event h)) (registry (objs h1 self)) =
     remove1 self (callbacks h1 (registry (objs h1 self)))"
  by (simp add: call_returns Let_def objs_disconnect callbacks_gdb_execute
      callbacks_disconnect)

text \<open>The event armed in the session where every command succeeds is gone after its call.\<close>

theorem returned_hook_disconnects_witness:
  "GCoreOnStop_run_event 0 (armed all_succeed) =
     (Inr (), (armed all_succeed)\<lparr>executed := [''gcore core.4242.0'']\<rparr>) \<and>
   callbacks (snd (call GCoreOnStop_run_event 0 () (armed all_succeed))) events_stop = []"
proof -
  have r: "GCoreOnStop_run_event 0 (armed all_succeed) =
     (Inr (), (armed all_succeed)\<lparr>executed := [''gcore core.4242.0'']\<rparr>)"
    using run_event_returns [of "armed all_succeed" 0]
    by (simp add: armed_state all_succeed_def)
  show ?thesis
    using r returned_hook_disconnects [of GCoreOnStop_run_event 0 "armed all_succeed" "()"
        "(armed all_succeed)\<lparr>executed := [''gcore core.4242.0'']\<rparr>" "()"]
    by (simp add: armed_state)
qed

text \<open>
  C5. When the hook returns and the binding's \<^verbatim>\<open>_continue\<close> is true, \<^verbatim>\<open>__call__\<close>
  issues exactly one command after the hook's, and it is \<^verbatim>\<open>continue\<close>; for a
  \<^verbatim>\<open>GCoreOnStop\<close> whose dump command succeeds, the commands issued are the dump command,
  then \<^verbatim>\<open>continue\<close>.
\<close>

theorem one_resume_after_dump:
  "(run_event self h = (Inr u, h1) \<and> continue (objs h1 self) \<longrightarrow>
      executed (snd (call run_event self event h)) = executed h1 @ [''continue'']) \<and>
   (execute_raises h (executed h) (''gcore '' @ file_name (objs h self)) = None \<and>
    continue (objs h self) \<longrightarrow>
      executed (snd (call GCoreOnStop_run_event self event h)) =
        executed h @ [''gcore '' @ file_name (objs h self), ''continue''])"
proof (intro conjI impI)
  assume a: "run_event self h = (Inr u, h1) \<and> continue (objs h1 self)"
  then show "executed (snd (call run_event self event h)) = executed h1 @ [''continue'']"
    by (simp add: call_returns objs_disconnect executed_gdb_execute executed_disconnect)
next
  let ?h1 = "h\<lparr>executed := executed h @ [''gcore '' @ file_name (objs h self)]\<rparr>"
  assume a: "execute_raises h (executed h) (''gcore '' @ file_name (objs h self)) = None \<and>
    continue (objs h self)"
  then have r: "GCoreOnStop_run_event self h = (Inr (), ?h1)"
    by (simp add: run_event_returns)
  have "continue (objs ?h1 self)" using a by simp
  then show "executed (snd (call GCoreOnStop_run_event self event h)) =
        executed h @ [''gcore '' @ file_name (objs h self), ''continue'']"
    using call_returns [of GCoreOnStop_run_event self h "()" ?h1 event, OF r]
    by (simp add: objs_disconnect executed_gdb_execute executed_disconnect)
qed

text \<open>The event armed in the session where every command succeeds.\<close>

theorem one_resume_after_dump_witness:
  "GCoreOnStop_run_event 0 (armed all_succeed) =
     (Inr (), (armed all_succeed)\<lparr>executed := [''gcore core.4242.0'']\<rparr>) \<and>
   continue (objs (armed all_succeed) 0) \<and>
   execute_raises (armed all_succeed) (executed (armed all_succeed))
     (''gcore '' @ file_name (objs (armed all_succeed) 0)) = None \<and>
   executed (snd (call GCoreOnStop_run_event 0 () (armed all_succeed))) =
     [''gcore core.4242.0'', ''continue'']"
proof -
  have r: "GCoreOnStop_run_event 0 (armed all_succeed) =
     (Inr (), (armed all_succeed)\<lparr>executed := [''gcore core.4242.0'']\<rparr>)"
    using run_event_returns [of "armed all_succeed" 0]
    by (simp add: armed_state all_succeed_def)
  show ?thesis
    using r one_resume_after_dump [of GCoreOnStop_run_event 0 "armed all_succeed" "()"
        "(armed all_succeed)\<lparr>executed := [''gcore core.4242.0'']\<rparr>" "()"]
    by (simp add: armed_state all_succeed_def)
qed

text \<open>
  C6. When the hook raises, \<^verbatim>\<open>__call__\<close> issues no command after it, whatever
  \<^verbatim>\<open>_continue\<close> says: the commands executed are those the hook left, so no
  \<^verbatim>\<open>continue\<close> is sent.
\<close>

theorem no_resume_after_failure:
  "run_event self h = (Inl x, h1) \<Longrightarrow>
   executed (snd (call run_event self event h)) = executed h1"
  by (simp add: call_raises)

text \<open>The event armed in the session that cannot write core files.\<close>

theorem no_resume_after_failure_witness:
  "GCoreOnStop_run_event 0 (armed gcore_fails) =
     (Inl (gdb_error ''Unable to create core file''),
      (armed gcore_fails)\<lparr>executed := [''gcore core.4242.0'']\<rparr>) \<and>
   executed (snd (call GCoreOnStop_run_event 0 () (armed gcore_fails))) =
     [''gcore core.4242.0'']"
  using armed_run_event_raises
    no_resume_after_failure [of GCoreOnStop_run_event 0 "armed gcore_fails"
      "gdb_error ''Unable to create core file''"
      "(armed gcore_fails)\<lparr>executed := [''gcore core.4242.0'']\<rparr>" "()"]
  by simp

text \<open>
  C7. \<^verbatim>\<open>stop\<close> answers \<^verbatim>\<open>True\<close> and changes the debugger in exactly this way: it
  allocates one new object (the next free address is used up and every other object
  is left as it was), gives it the registry \<^verbatim>\<open>gdb.events.stop\<close>, \<^verbatim>\<open>_continue\<close> true and
  the computed file name, and appends it once to \<^verbatim>\<open>gdb.events.stop\<close>, leaving every
  other registry as it was. No command is executed, nothing is printed and the
  breakpoints are untouched. A second \<^verbatim>\<open>stop\<close> connects a second, different object.
  When every connected callable is an allocated address, the new object was not
  connected before, so no callable becomes connected twice, and every connected
  callable is still an allocated address afterwards.
\<close>

theorem stop_arms_one_event:
  "fst (stop self h) = True \<and>
   (let h' = snd (stop self h); ev = next_obj h in
      h' = h\<lparr>next_obj := Suc ev,
             objs := (objs h)(ev :=
               \<lparr>registry = events_stop, continue = True,
                file_name = core_file_name (core_name self) (inferior_pid h) (hit_count self)\<rparr>),
             callbacks := (callbacks h)(events_stop := callbacks h events_stop @ [ev])\<rparr> \<and>
      callbacks h' = (callbacks h)(events_stop := callbacks h events_stop @ [ev]) \<and>
      next_obj h' = Suc ev \<and>
      objs h' = (objs h)(ev :=
               \<lparr>registry = events_stop, continue = True,
                file_name = core_file_name (core_name self) (inferior_pid h) (hit_count self)\<rparr>) \<and>
      registry (objs h' ev) = events_stop \<and>
      continue (objs h' ev) = True \<and>
      file_name (objs h' ev) = core_file_name (core_name self) (inferior_pid h) (hit_count self) \<and>
      executed h' = executed h \<and>
      printed h' = printed h \<and>
      breakpoints h' = breakpoints h \<and>
      callbacks (snd (stop self' h')) events_stop = callbacks h events_stop @ [ev, Suc ev] \<and>
      ((\<forall>a \<in> set (callbacks h events_stop). a < ev) \<longrightarrow>
         ev \<notin> set (callbacks h events_stop) \<and>
         distinct (callbacks h events_stop) = distinct (callbacks h' events_stop) \<and>
         (\<forall>a \<in> set (callbacks h' events_stop). a < next_obj h')))"
  by (auto simp add: stop_eq Let_def)

text \<open>
  The armed session, hit again: object 0 is connected and address 1 is free; the
  second \<^verbatim>\<open>stop\<close> connects object 1 next to object 0 and uses the address up.
\<close>

theorem stop_arms_one_event_witness:
  "callbacks (armed all_succeed) events_stop = [0] \<and>
   next_obj (armed all_succeed) = 1 \<and>
   1 \<notin> set (callbacks (armed all_succeed) events_stop) \<and>
   callbacks (snd (stop \<lparr>spec = ''main'', core_name = None, hit_count = 1\<rparr>
       (armed all_succeed))) events_stop = [0, 1] \<and>
   next_obj (snd (stop \<lparr>spec = ''main'', core_name = None, hit_count = 1\<rparr>
       (armed all_succeed))) = 2"
  using stop_arms_one_event [of "\<lparr>spec = ''main'', core_name = None, hit_count = 1\<rparr>"
      "armed all_succeed" "\<lparr>spec = ''main'', core_name = None, hit_count = 1\<rparr>"]
  by (simp add: Let_def armed_state armed_next_obj)

text \<open>
  C8. \<^verbatim>\<open>invoke\<close> with the empty argument string raises \<^verbatim>\<open>gdb.GdbError\<close>, the error
  gdb reports as a message, and leaves the debugger as it was: no breakpoint is
  created and none is requested.
\<close>

theorem usage_error:
  "invoke '''' from_tty h =
     (Inl (GdbError ''The gcore-point command must be called with arguments.''), h)"
  by (simp add: invoke_def command_name_def)

lemma discard_requested: "requested (snd (discard r)) = requested (snd r)"
  by (simp add: discard_def split: prod.splits sum.splits)

lemma CoreDumpBP_init_requested:
  "requested (snd (CoreDumpBP_init sp l h)) = requested h @ [sp]"
  by (simp add: CoreDumpBP_init_def Let_def split: option.splits)

text \<open>
  C9. For an argument string of one or more spaces and nothing else, \<^verbatim>\<open>invoke\<close> does
  not take the usage-error branch: it does what creating a \<^verbatim>\<open>CoreDumpBP\<close> with the
  empty spec (and the empty label) does, and the empty spec is requested from gdb.
\<close>

theorem only_spaces:
  "arg \<noteq> '''' \<Longrightarrow> set arg \<subseteq> {CHR '' ''} \<Longrightarrow>
   invoke arg from_tty h = discard (CoreDumpBP_init '''' (Some '''') h) \<and>
   requested (snd (invoke arg from_tty h)) = requested h @ ['''']"
proof -
  assume ne: "arg \<noteq> ''''" and sp: "set arg \<subseteq> {CHR '' ''}"
  from ne obtain c cs where arg: "arg = c # cs" by (cases arg) auto
  have "str_split (CHR '' '') arg = [] # [] # replicate (length cs) []"
    using str_split_spaces [OF sp] arg by simp
  then have inv: "invoke arg from_tty h = discard (CoreDumpBP_init '''' (Some '''') h)"
    using ne by (simp add: invoke_def)
  then show ?thesis
    by (simp add: discard_requested CoreDumpBP_init_requested)
qed

text \<open>Three spaces.\<close>

theorem only_spaces_witness:
  "''   '' \<noteq> '''' \<and> set ''   '' \<subseteq> {CHR '' ''} \<and>
   invoke ''   '' False (session all_succeed (\<lambda>s. None) 4242) =
     discard (CoreDumpBP_init '''' (Some '''') (session all_succeed (\<lambda>s. None) 4242)) \<and>
   requested (snd (invoke ''   '' False (session all_succeed (\<lambda>s. None) 4242))) = ['''']"
  using only_spaces [of "''   ''" False "session all_succeed (\<lambda>s. None) 4242"]
  by (simp add: session_requested discard_requested CoreDumpBP_init_requested)

text \<open>
  C10. When the argument string splits on single spaces into three or more tokens,
  \<^verbatim>\<open>invoke\<close> does what creating a \<^verbatim>\<open>CoreDumpBP\<close> from the first token as spec and the
  second as label does: the later tokens change nothing and raise nothing. Two spaces
  after the spec make the second token, and so the label, the empty string.
\<close>

theorem extra_tokens_ignored:
  "(str_split (CHR '' '') arg = sp # l # t # rest \<longrightarrow>
      invoke arg from_tty h = discard (CoreDumpBP_init sp (Some l) h)) \<and>
   (CHR '' '' \<notin> set sp \<longrightarrow>
      invoke (sp @ ''  '' @ r) from_tty h = discard (CoreDumpBP_init sp (Some '''') h))"
proof (intro conjI impI)
  assume a: "str_split (CHR '' '') arg = sp # l # t # rest"
  then have "arg \<noteq> ''''" by auto
  with a show "invoke arg from_tty h = discard (CoreDumpBP_init sp (Some l) h)"
    by (simp add: invoke_def)
next
  assume a: "CHR '' '' \<notin> set sp"
  have "str_split (CHR '' '') (sp @ ''  '' @ r) = sp # [] # str_split (CHR '' '') r"
    using str_split_hd [OF a, of "CHR '' '' # r"] by simp
  then show "invoke (sp @ ''  '' @ r) from_tty h = discard (CoreDumpBP_init sp (Some '''') h)"
    by (simp add: invoke_def)
qed

text \<open>\<^verbatim>\<open>gcore-point main run extra\<close>, and \<^verbatim>\<open>gcore-point main  x\<close> with two spaces.\<close>

theorem extra_tokens_ignored_witness:
  "str_split (CHR '' '') ''main run extra'' = [''main'', ''run'', ''extra''] \<and>
   invoke ''main run extra'' False (session all_succeed (\<lambda>s. None) 4242) =
     discard (CoreDumpBP_init ''main'' (Some ''run'') (session all_succeed (\<lambda>s. None) 4242)) \<and>
   CHR '' '' \<notin> set ''main'' \<and>
   invoke ''main  x'' False (session all_succeed (\<lambda>s. None) 4242) =
     discard (CoreDumpBP_init ''main'' (Some '''') (session all_succeed (\<lambda>s. None) 4242))"
  using extra_tokens_ignored [of "''main run extra''" "''main''" "''run''" "''extra''" "[]"
      False "session all_succeed (\<lambda>s. None) 4242" "''x''"]
  by simp

end
